theory Spec2Isabelle
  imports Main "HOL-Library.Monad_Syntax"
begin

section \<open>Restart monitor of the key portal (key-portal/app.py)\<close>

text \<open>
  The portal polls the usage totals of the upstream proxy, takes a decrease of a total
  as a restart of the upstream, and then replays the last snapshot into it. The module
  keeps the monitor in the global dictionary \<open>_cliproxy_state\<close>; here the dictionary is
  a record that every function takes and returns. Python integers are unbounded, so the
  counters are \<open>int\<close>. The module key-portal/snapshot.py holds the same state and the
  same two functions (its import takes \<open>call_management_api\<close> as an argument); the
  portal runs the ones of app.py, which are the ones modelled.
\<close>

subsection \<open>The monitor state\<close>

type_synonym timestamp = nat

record cliproxy_state =
  last_total_tokens :: int
  last_total_requests :: int
  last_check_time :: "timestamp option"
  restart_count :: int

text \<open>The module-level initialiser of \<open>_cliproxy_state\<close>.\<close>

definition initial_cliproxy_state :: cliproxy_state where
  "initial_cliproxy_state =
     \<lparr>last_total_tokens = 0, last_total_requests = 0, last_check_time = None,
      restart_count = 0\<rparr>"

subsection \<open>detect_cliproxy_restart\<close>

text \<open>
  \<open>now\<close> is the value \<open>datetime.now()\<close> returns at the start of the call. The result is
  the returned boolean and the dictionary as the call leaves it. The function's console
  output is left out: with integer arguments its format specifications cannot raise.
\<close>

definition detect_cliproxy_restart ::
  "timestamp \<Rightarrow> int \<Rightarrow> int \<Rightarrow> cliproxy_state \<Rightarrow> bool \<times> cliproxy_state" where
  "detect_cliproxy_restart now current_tokens current_requests st =
     (if last_check_time st = None then
        (False, st\<lparr>last_total_tokens := current_tokens,
                    last_total_requests := current_requests,
                    last_check_time := Some now\<rparr>)
      else
        let tokens_decreased = current_tokens < last_total_tokens st;
            requests_decreased = current_requests < last_total_requests st
        in if tokens_decreased \<or> requests_decreased then
             (True, st\<lparr>restart_count := restart_count st + 1,
                        last_total_tokens := current_tokens,
                        last_total_requests := current_requests,
                        last_check_time := Some now\<rparr>)
           else
             (False, st\<lparr>last_total_tokens := current_tokens,
                         last_total_requests := current_requests,
                         last_check_time := Some now\<rparr>))"

text \<open>
  A run of observations: each element is the clock reading and the two totals of one
  call. \<open>observe_states\<close> lists the dictionary after each call, \<open>observe_results\<close> the
  returned booleans, \<open>observe_all\<close> is the dictionary after the last call.
\<close>

type_synonym observation = "timestamp \<times> int \<times> int"

fun observe_all :: "cliproxy_state \<Rightarrow> observation list \<Rightarrow> cliproxy_state" where
  "observe_all st [] = st"
| "observe_all st ((now, t, r) # xs) =
     observe_all (snd (detect_cliproxy_restart now t r st)) xs"

fun observe_states :: "cliproxy_state \<Rightarrow> observation list \<Rightarrow> cliproxy_state list" where
  "observe_states st [] = []"
| "observe_states st ((now, t, r) # xs) =
     (let st' = snd (detect_cliproxy_restart now t r st) in st' # observe_states st' xs)"

fun observe_results :: "cliproxy_state \<Rightarrow> observation list \<Rightarrow> bool list" where
  "observe_results st [] = []"
| "observe_results st ((now, t, r) # xs) =
     (let (b, st') = detect_cliproxy_restart now t r st in b # observe_results st' xs)"

definition baseline :: "cliproxy_state \<Rightarrow> int \<times> int" where
  "baseline st = (last_total_tokens st, last_total_requests st)"

subsection \<open>JSON values and the management API\<close>

text \<open>
  What \<open>json.load\<close> and \<open>resp.json()\<close> return. Python's \<open>None\<close> is \<open>JNull\<close>, a parsed
  object is the association list of its keys. A number with a fraction or an exponent is
  kept as its literal: the code only prints such values.
\<close>

datatype json =
    JNull
  | JBool bool
  | JInt int
  | JFloat string
  | JStr string
  | JList "json list"
  | JDict "(string \<times> json) list"

text \<open>
  \<open>d.get(key, default)\<close>: only a dictionary has the method; on any other value the
  attribute lookup raises, which is the result \<open>None\<close> here.
\<close>

fun py_get :: "json \<Rightarrow> string \<Rightarrow> json \<Rightarrow> json option" where
  "py_get (JDict kvs) key dflt = Some (case map_of kvs key of None \<Rightarrow> dflt | Some v \<Rightarrow> v)"
| "py_get _ key dflt = None"

text \<open>
  Whether the format specification \<open>{v:,}\<close> of the log lines accepts the value: it does
  for \<open>int\<close>, \<open>float\<close> and \<open>bool\<close>, and raises for every other JSON value.
\<close>

fun format_ok :: "json \<Rightarrow> bool" where
  "format_ok (JInt _) = True"
| "format_ok (JFloat _) = True"
| "format_ok (JBool _) = True"
| "format_ok _ = False"

text \<open>
  One answer of the \<open>requests\<close> library: the call raises (with the text of the
  exception), or it returns a response with a status code, a text, and what \<open>resp.json()\<close>
  does on it (\<open>Inl\<close>: it raises with that text; \<open>Inr\<close>: the parsed body).
\<close>

datatype http_outcome =
    Raises string
  | Response int string "string + json"

type_synonym request = "string \<times> string \<times> json"

text \<open>
  The error string \<open>call_management_api\<close> returns, by the branch that builds it. Only
  \<open>str(e)\<close> of an exception can be the empty string, which Python's \<open>if err:\<close> takes for
  no error.
\<close>

datatype api_error =
    Unsupported string
  | ApiError int string
  | Raised string

fun err_truthy :: "api_error option \<Rightarrow> bool" where
  "err_truthy None = False"
| "err_truthy (Some (Raised msg)) = (msg \<noteq> [])"
| "err_truthy (Some _) = True"

text \<open>The payload of the \<open>usage_update\<close> event sent to the WebSocket clients.\<close>

record usage_update =
  total_tokens :: int
  total_requests :: int
  today_tokens :: json
  today_requests :: json
  success_count :: json
  timestamp :: timestamp

text \<open>The snapshot file on disk: absent, present but unreadable as JSON, or JSON.\<close>

datatype snapshot_file = NoFile | BadFile | JsonFile json

text \<open>
  Everything the monitoring cycle reads or writes: the two module dictionaries, the
  snapshot file, the answers the upstream will give to the next HTTP calls (in order; a
  call with no answer left raises, as a connection that times out), the calls made so
  far, and the events emitted so far.
\<close>

record world =
  cliproxy :: cliproxy_state
  last_usage :: "int \<times> int"
  snapshot :: snapshot_file
  upstream :: "http_outcome list"
  sent :: "request list"
  emitted :: "usage_update list"

definition http_request :: "request \<Rightarrow> world \<Rightarrow> http_outcome \<times> world" where
  "http_request rq w =
     (case upstream w of
        [] \<Rightarrow> (Raises ''timed out'', w\<lparr>sent := sent w @ [rq]\<rparr>)
      | answer # rest \<Rightarrow> (answer, w\<lparr>upstream := rest, sent := sent w @ [rq]\<rparr>))"

text \<open>
  The part of \<open>call_management_api\<close> after the HTTP call has returned or raised: the
  pair \<open>(data, err)\<close> of the source.
\<close>

fun api_result :: "http_outcome \<Rightarrow> json \<times> api_error option" where
  "api_result (Raises msg) = (JNull, Some (Raised msg))"
| "api_result (Response status_code body_text body) =
     (if status_code = 200 then
        (case body of Inl msg \<Rightarrow> (JNull, Some (Raised msg)) | Inr j \<Rightarrow> (j, None))
      else (JNull, Some (ApiError status_code body_text)))"

definition call_management_api ::
  "string \<Rightarrow> string \<Rightarrow> json \<Rightarrow> world \<Rightarrow> (json \<times> api_error option) \<times> world" where
  "call_management_api method endpoint data w =
     (if method = ''GET'' then
        (let (answer, w') = http_request (''GET'', endpoint, JNull) w in (api_result answer, w'))
      else if method = ''POST'' then
        (let (answer, w') = http_request (''POST'', endpoint, data) w in (api_result answer, w'))
      else ((JNull, Some (Unsupported method)), w))"

subsection \<open>import_cliproxy_snapshot\<close>

text \<open>
  The lines that read the loaded snapshot and print its totals; \<open>None\<close> when one of them
  raises (the snapshot or its \<open>usage\<close> is not an object, or a total is not a number).
\<close>

definition snapshot_info :: "json \<Rightarrow> (json \<times> json \<times> json) option" where
  "snapshot_info snap =
     do {
       exported_at \<leftarrow> py_get snap ''exported_at'' (JStr ''unknown'');
       usage \<leftarrow> py_get snap ''usage'' (JDict []);
       total_tokens \<leftarrow> py_get usage ''total_tokens'' (JInt 0);
       total_requests \<leftarrow> py_get usage ''total_requests'' (JInt 0);
       if format_ok total_tokens \<and> format_ok total_requests
       then Some (exported_at, total_tokens, total_requests) else None
     }"

text \<open>The lines that read and print the counts of the import reply.\<close>

definition import_report :: "json \<Rightarrow> (json \<times> json \<times> json) option" where
  "import_report data =
     do {
       added \<leftarrow> py_get data ''added'' (JInt 0);
       skipped \<leftarrow> py_get data ''skipped'' (JInt 0);
       new_total_requests \<leftarrow> py_get data ''total_requests'' (JInt 0);
       if format_ok added \<and> format_ok skipped \<and> format_ok new_total_requests
       then Some (added, skipped, new_total_requests) else None
     }"

text \<open>
  The function returns a boolean; every exception inside it is caught and gives \<open>False\<close>.
\<close>

definition import_cliproxy_snapshot :: "world \<Rightarrow> bool \<times> world" where
  "import_cliproxy_snapshot w =
     (case snapshot w of
        NoFile \<Rightarrow> (False, w)
      | BadFile \<Rightarrow> (False, w)
      | JsonFile snap \<Rightarrow>
          (case snapshot_info snap of
             None \<Rightarrow> (False, w)
           | Some info \<Rightarrow>
               (let ((data, err), w') =
                      call_management_api ''POST'' ''/v0/management/usage/import'' snap w
                in if err_truthy err then (False, w')
                   else (case import_report data of
                           None \<Rightarrow> (False, w')
                         | Some report \<Rightarrow> (True, w')))))"

subsection \<open>broadcast_usage_update\<close>

text \<open>
  The three lines that take the totals out of a usage reply; \<open>None\<close> when one raises
  (the reply or its \<open>usage\<close> is not an object).
\<close>

definition usage_totals :: "json \<Rightarrow> (json \<times> json \<times> json) option" where
  "usage_totals data =
     do {
       usage \<leftarrow> py_get data ''usage'' (JDict []);
       current_tokens \<leftarrow> py_get usage ''total_tokens'' (JInt 0);
       current_requests \<leftarrow> py_get usage ''total_requests'' (JInt 0);
       Some (usage, current_tokens, current_requests)
     }"

text \<open>
  The last block of the function: when a total differs from \<open>_last_usage_state\<close>, store
  both and emit the event. An exception while the per-day figures are read leaves the
  stored totals updated and emits nothing.
\<close>

definition usage_event ::
  "timestamp \<Rightarrow> string \<Rightarrow> json \<Rightarrow> int \<Rightarrow> int \<Rightarrow> usage_update option" where
  "usage_event now today usage current_tokens current_requests =
     do {
       tokens_by_day \<leftarrow> py_get usage ''tokens_by_day'' (JDict []);
       tokens_today \<leftarrow> py_get tokens_by_day today (JInt 0);
       requests_by_day \<leftarrow> py_get usage ''requests_by_day'' (JDict []);
       requests_today \<leftarrow> py_get requests_by_day today (JInt 0);
       successes \<leftarrow> py_get usage ''success_count'' (JInt 0);
       Some \<lparr>total_tokens = current_tokens, total_requests = current_requests,
             today_tokens = tokens_today, today_requests = requests_today,
             success_count = successes, timestamp = now\<rparr>
     }"

definition broadcast_changes ::
  "timestamp \<Rightarrow> string \<Rightarrow> json \<Rightarrow> int \<Rightarrow> int \<Rightarrow> world \<Rightarrow> world" where
  "broadcast_changes now today usage current_tokens current_requests w =
     (if current_tokens \<noteq> fst (last_usage w) \<or> current_requests \<noteq> snd (last_usage w) then
        (let w' = w\<lparr>last_usage := (current_tokens, current_requests)\<rparr>
         in case usage_event now today usage current_tokens current_requests of
              None \<Rightarrow> w'
            | Some ev \<Rightarrow> w'\<lparr>emitted := emitted w' @ [ev]\<rparr>)
      else w)"

text \<open>
  One monitoring cycle. \<open>now\<close> and \<open>today\<close> are the clock reading and the date string of
  the cycle. The function catches every exception, so it always returns; the result is
  the world it leaves. The totals of a usage reply are integers in the upstream's
  interface: a reply whose total is present but not an integer is outside this model,
  and the cycle is then \<open>None\<close>.
\<close>

definition broadcast_usage_update :: "timestamp \<Rightarrow> string \<Rightarrow> world \<Rightarrow> world option" where
  "broadcast_usage_update now today w =
     (let ((data, err), w1) = call_management_api ''GET'' ''/v0/management/usage'' JNull w
      in if err_truthy err then Some w1
         else
           (case usage_totals data of
              None \<Rightarrow> Some w1
            | Some (usage, JInt current_tokens, JInt current_requests) \<Rightarrow>
                (let (restarted, st') =
                       detect_cliproxy_restart now current_tokens current_requests (cliproxy w1);
                     w2 = w1\<lparr>cliproxy := st'\<rparr>
                 in if restarted then
                      (let (restored, w3) = import_cliproxy_snapshot w2
                       in if restored then
                            (let ((data', err'), w4) =
                                   call_management_api ''GET'' ''/v0/management/usage'' JNull w3
                             in if \<not> err_truthy err' then
                                  (case usage_totals data' of
                                     None \<Rightarrow> Some w4
                                   | Some (usage', JInt current_tokens', JInt current_requests') \<Rightarrow>
                                       Some (broadcast_changes now today usage'
                                               current_tokens' current_requests' w4)
                                   | Some _ \<Rightarrow> None)
                                else Some (broadcast_changes now today usage
                                             current_tokens current_requests w4))
                          else Some (broadcast_changes now today usage
                                       current_tokens current_requests w3))
                    else Some (broadcast_changes now today usage
                                 current_tokens current_requests w2))
            | Some _ \<Rightarrow> None))"

text \<open>
  The domain of the cycle's model: an answer of the upstream that, read as a usage
  reply, carries integer totals (or none that can be taken out).
\<close>

definition integer_totals :: "http_outcome \<Rightarrow> bool" where
  "integer_totals answer =
     (case usage_totals (fst (api_result answer)) of
        None \<Rightarrow> True
      | Some (usage, JInt t, JInt r) \<Rightarrow> True
      | Some _ \<Rightarrow> False)"

subsection \<open>Example worlds\<close>

text \<open>
  Concrete inputs for the examples below: a usage reply with the given totals, a stored
  snapshot, the reply of a successful import, and a world whose monitor has observed the
  totals (100, 50) at time 7.
\<close>

definition usage_reply :: "int \<Rightarrow> int \<Rightarrow> http_outcome" where
  "usage_reply t r =
     Response 200 [] (Inr (JDict [(''usage'',
        JDict [(''total_tokens'', JInt t), (''total_requests'', JInt r)])]))"

definition example_snapshot :: json where
  "example_snapshot =
     JDict [(''exported_at'', JStr ''2025-01-01T00:00:00''),
            (''usage'', JDict [(''total_tokens'', JInt 120), (''total_requests'', JInt 60)])]"

definition import_reply :: http_outcome where
  "import_reply =
     Response 200 [] (Inr (JDict [(''added'', JInt 3), (''skipped'', JInt 0),
                                   (''total_requests'', JInt 60)]))"

definition example_world :: "snapshot_file \<Rightarrow> http_outcome list \<Rightarrow> world" where
  "example_world file answers =
     \<lparr>cliproxy = \<lparr>last_total_tokens = 100, last_total_requests = 50,
                  last_check_time = Some 7, restart_count = 0\<rparr>,
      last_usage = (100, 50), snapshot = file, upstream = answers, sent = [], emitted = []\<rparr>"

section \<open>What the HTTP calls and the import leave alone\<close>

lemma http_request_keeps:
  "cliproxy (snd (http_request rq w)) = cliproxy w"
  "last_usage (snd (http_request rq w)) = last_usage w"
  "snapshot (snd (http_request rq w)) = snapshot w"
  "emitted (snd (http_request rq w)) = emitted w"
  by (simp_all add: http_request_def split: list.splits)

lemma http_request_fst:
  "fst (http_request rq w) = (case upstream w of [] \<Rightarrow> Raises ''timed out'' | a # _ \<Rightarrow> a)"
  by (simp add: http_request_def split: list.splits)

lemma call_get:
  "call_management_api ''GET'' e d w =
     (api_result (fst (http_request (''GET'', e, JNull) w)),
      snd (http_request (''GET'', e, JNull) w))"
  by (simp add: call_management_api_def split: prod.splits)

lemma call_post:
  "call_management_api ''POST'' e d w =
     (api_result (fst (http_request (''POST'', e, d) w)),
      snd (http_request (''POST'', e, d) w))"
  by (simp add: call_management_api_def split: prod.splits)

lemma call_keeps_cliproxy: "cliproxy (snd (call_management_api m e d w)) = cliproxy w"
  by (simp add: call_management_api_def case_prod_beta http_request_keeps)

text \<open>A call either returns data and no error, or an error and no data.\<close>

lemma api_result_cases:
  "api_result a = (data, err) \<Longrightarrow>
     (err = None \<and> (\<exists>body_text. a = Response 200 body_text (Inr data)))
     \<or> (err \<noteq> None \<and> data = JNull)"
  by (cases a) (auto split: if_splits sum.splits)

lemma api_result_ok:
  assumes "api_result a = (data, err)" and "data \<noteq> JNull"
  shows "\<exists>body_text. a = Response 200 body_text (Inr data)"
  using api_result_cases [OF assms(1)] assms(2) by auto

lemma import_report_JNull: "import_report JNull = None"
  by (simp add: import_report_def)

lemma usage_totals_JNull: "usage_totals JNull = None"
  by (simp add: usage_totals_def)

lemma import_keeps_cliproxy: "cliproxy (snd (import_cliproxy_snapshot w)) = cliproxy w"
proof (cases "snapshot w")
  case (JsonFile snap)
  show ?thesis
  proof (cases "snapshot_info snap")
    case None
    with JsonFile show ?thesis by (simp add: import_cliproxy_snapshot_def)
  next
    case (Some info)
    obtain data err w' where c:
      "call_management_api ''POST'' ''/v0/management/usage/import'' snap w = ((data, err), w')"
      by (metis prod.exhaust)
    have "cliproxy w' = cliproxy w"
      using call_keeps_cliproxy [of "''POST''" "''/v0/management/usage/import''" snap w] c
      by simp
    with JsonFile Some c show ?thesis
      by (simp add: import_cliproxy_snapshot_def split: option.splits)
  qed
qed (simp_all add: import_cliproxy_snapshot_def)

lemma changes_keep_cliproxy: "cliproxy (broadcast_changes now today u t r w) = cliproxy w"
  by (simp add: broadcast_changes_def Let_def split: option.splits)

lemma reread_keeps_cliproxy:
  assumes "(case x of
              None \<Rightarrow> Some w4
            | Some (usage', JInt a, JInt b) \<Rightarrow> Some (broadcast_changes now today usage' a b w4)
            | Some _ \<Rightarrow> None) = Some w'"
  shows "cliproxy w' = cliproxy w4"
proof (cases x)
  case None
  with assms show ?thesis by simp
next
  case (Some p)
  obtain u ja jb where p: "p = (u, ja, jb)" by (cases p) auto
  show ?thesis
  proof (cases ja)
    case (JInt a)
    show ?thesis
    proof (cases jb)
      case (JInt b)
      with assms Some p \<open>ja = JInt a\<close> show ?thesis by (auto simp: changes_keep_cliproxy)
    qed (use assms Some p \<open>ja = JInt a\<close> in simp_all)
  qed (use assms Some p in simp_all)
qed

text \<open>
  Whenever the first usage reply of a cycle carries integer totals, the monitor state
  at the end of the cycle is the one \<open>detect_cliproxy_restart\<close> left on those totals.
\<close>

lemma broadcast_cliproxy:
  assumes "call_management_api ''GET'' ''/v0/management/usage'' JNull w = ((data, err), w1)"
      and "\<not> err_truthy err"
      and "usage_totals data = Some (usage, JInt t1, JInt r1)"
      and "broadcast_usage_update now today w = Some w'"
  shows "cliproxy w' = snd (detect_cliproxy_restart now t1 r1 (cliproxy w))"
proof -
  have c1: "cliproxy w1 = cliproxy w"
    using call_keeps_cliproxy [of "''GET''" "''/v0/management/usage''" JNull w] assms(1)
    by simp
  obtain restarted st' where
    d: "detect_cliproxy_restart now t1 r1 (cliproxy w) = (restarted, st')"
    by (metis prod.exhaust)
  define w2 where "w2 = w1\<lparr>cliproxy := st'\<rparr>"
  have c2: "cliproxy w2 = st'" by (simp add: w2_def)
  obtain restored w3 where i: "import_cliproxy_snapshot w2 = (restored, w3)"
    by (metis prod.exhaust)
  have c3: "cliproxy w3 = st'"
    using import_keeps_cliproxy [of w2] i by (simp add: w2_def)
  obtain data' err' w4 where
    g: "call_management_api ''GET'' ''/v0/management/usage'' JNull w3 = ((data', err'), w4)"
    by (metis prod.exhaust)
  have c4: "cliproxy w4 = st'"
    using call_keeps_cliproxy [of "''GET''" "''/v0/management/usage''" JNull w3] g c3
    by simp
  have b: "broadcast_usage_update now today w =
     (if restarted then
        if restored then
          if \<not> err_truthy err' then
            (case usage_totals data' of
               None \<Rightarrow> Some w4
             | Some (usage', JInt a, JInt b) \<Rightarrow> Some (broadcast_changes now today usage' a b w4)
             | Some _ \<Rightarrow> None)
          else Some (broadcast_changes now today usage t1 r1 w4)
        else Some (broadcast_changes now today usage t1 r1 w3)
      else Some (broadcast_changes now today usage t1 r1 w2))"
    using assms(1-3) c1 d i g by (simp add: broadcast_usage_update_def w2_def)
  have "cliproxy w' = st'"
  proof (cases restarted)
    case False
    with b assms(4) c2 show ?thesis by (auto simp: changes_keep_cliproxy)
  next
    case True
    note rs = this
    show ?thesis
    proof (cases restored)
      case False
      with b rs assms(4) c3 show ?thesis by (auto simp: changes_keep_cliproxy)
    next
      case True
      show ?thesis
      proof (cases "err_truthy err'")
        case True
        with b rs \<open>restored\<close> assms(4) c4 show ?thesis by (auto simp: changes_keep_cliproxy)
      next
        case False
        with b rs \<open>restored\<close> assms(4) have
          "(case usage_totals data' of
               None \<Rightarrow> Some w4
             | Some (usage', JInt a, JInt b) \<Rightarrow> Some (broadcast_changes now today usage' a b w4)
             | Some _ \<Rightarrow> None) = Some w'" by simp
        from reread_keeps_cliproxy [OF this] c4 show ?thesis by simp
      qed
    qed
  qed
  with d show ?thesis by simp
qed

text \<open>
  The cycle is defined on every world whose upstream answers carry integer totals.
\<close>

lemma http_request_upstream:
  "set (upstream (snd (http_request rq w))) \<subseteq> set (upstream w)"
  by (auto simp: http_request_def split: list.splits)

lemma call_upstream:
  "set (upstream (snd (call_management_api m e d w))) \<subseteq> set (upstream w)"
  using http_request_upstream by (simp add: call_management_api_def case_prod_beta)

lemma import_upstream:
  "set (upstream (snd (import_cliproxy_snapshot w))) \<subseteq> set (upstream w)"
  using call_upstream [of "''POST''" "''/v0/management/usage/import''" _ w]
  by (simp add: import_cliproxy_snapshot_def case_prod_beta Let_def
        split: snapshot_file.splits option.splits)

lemma get_totals:
  assumes "call_management_api ''GET'' e d w = ((data, err), w1)"
      and "\<forall>a \<in> set (upstream w). integer_totals a"
  shows "case usage_totals data of
           None \<Rightarrow> True | Some (usage, JInt t, JInt r) \<Rightarrow> True | Some _ \<Rightarrow> False"
proof (cases "upstream w")
  case Nil
  with assms(1) have "data = JNull"
    by (auto simp: call_get http_request_def)
  then show ?thesis by (simp add: usage_totals_JNull)
next
  case (Cons a rest)
  with assms(1) have "data = fst (api_result a)"
    by (auto simp: call_get http_request_def)
  moreover from Cons assms(2) have "integer_totals a" by simp
  ultimately show ?thesis by (simp add: integer_totals_def)
qed

lemma broadcast_defined:
  assumes "\<forall>a \<in> set (upstream w). integer_totals a"
  shows "broadcast_usage_update now today w \<noteq> None"
proof -
  obtain data err w1 where
    g1: "call_management_api ''GET'' ''/v0/management/usage'' JNull w = ((data, err), w1)"
    by (metis prod.exhaust)
  have u1: "set (upstream w1) \<subseteq> set (upstream w)"
    using call_upstream [of "''GET''" "''/v0/management/usage''" JNull w] g1 by simp
  note t1 = get_totals [OF g1 assms]
  show ?thesis
  proof (cases "usage_totals data")
    case None
    with g1 show ?thesis by (simp add: broadcast_usage_update_def)
  next
    case (Some p)
    with t1 obtain usage t r where p: "p = (usage, JInt t, JInt r)"
      by (auto split: prod.splits json.splits)
    obtain restarted st' where
      d: "detect_cliproxy_restart now t r (cliproxy w1) = (restarted, st')"
      by (metis prod.exhaust)
    define w2 where "w2 = w1\<lparr>cliproxy := st'\<rparr>"
    obtain restored w3 where i: "import_cliproxy_snapshot w2 = (restored, w3)"
      by (metis prod.exhaust)
    have u3: "set (upstream w3) \<subseteq> set (upstream w)"
      using import_upstream [of w2] i u1 by (auto simp: w2_def)
    obtain data' err' w4 where
      g2: "call_management_api ''GET'' ''/v0/management/usage'' JNull w3 = ((data', err'), w4)"
      by (metis prod.exhaust)
    from u3 assms have "\<forall>a \<in> set (upstream w3). integer_totals a" by blast
    note t2 = get_totals [OF g2 this]
    have r: "(case usage_totals data' of
               None \<Rightarrow> Some w4
             | Some (usage', JInt a, JInt b) \<Rightarrow> Some (broadcast_changes now today usage' a b w4)
             | Some _ \<Rightarrow> None) \<noteq> None"
      using t2 by (auto split: option.splits prod.splits json.splits)
    show ?thesis
      using g1 Some p d i g2 r
      by (auto simp: broadcast_usage_update_def w2_def Let_def)
  qed
qed

text \<open>The definitions unfolded to run a cycle on a concrete world.\<close>

lemmas run_cycle =
  broadcast_usage_update_def example_world_def call_management_api_def http_request_def
  usage_reply_def import_reply_def example_snapshot_def usage_totals_def
  detect_cliproxy_restart_def import_cliproxy_snapshot_def snapshot_info_def
  import_report_def broadcast_changes_def usage_event_def Let_def

section \<open>Properties of the restart check\<close>

text \<open>
  C1. On a state that holds a prior observation (\<open>last_check_time\<close> is not \<open>None\<close>), the
  check reports a restart exactly when the current token total is strictly below the
  stored one or the current request total is strictly below the stored one. This holds
  for all integer totals, so in particular for the non-negative ones of the input
  contract. With the baseline (100, 50), the totals (80, 60) are reported as a restart and
  the totals (150, 70) are not (the witness below).
\<close>

theorem detect_restart_iff_decrease:
  assumes "last_check_time st \<noteq> None"
  shows "fst (detect_cliproxy_restart now current_tokens current_requests st)
           \<longleftrightarrow> current_tokens < last_total_tokens st
                \<or> current_requests < last_total_requests st"
  using assms by (simp add: detect_cliproxy_restart_def Let_def)

theorem detect_restart_iff_decrease_witness:
  "(let st = \<lparr>last_total_tokens = 100, last_total_requests = 50,
               last_check_time = Some 7, restart_count = 0\<rparr>
    in last_check_time st \<noteq> None
       \<and> fst (detect_cliproxy_restart 8 80 60 st)
       \<and> \<not> fst (detect_cliproxy_restart 8 150 70 st))"
  using detect_restart_iff_decrease
          [of "\<lparr>last_total_tokens = 100, last_total_requests = 50,
                last_check_time = Some 7, restart_count = 0\<rparr>" 8 80 60]
        detect_restart_iff_decrease
          [of "\<lparr>last_total_tokens = 100, last_total_requests = 50,
                last_check_time = Some 7, restart_count = 0\<rparr>" 8 150 70]
  by (simp add: Let_def)

text \<open>
  C3. The first call, on a state whose \<open>last_check_time\<close> is \<open>None\<close>, returns \<open>False\<close>
  whatever the totals are, and stores them as the baseline (with the clock reading);
  the restart counter is as before.
\<close>

theorem first_observation_no_restart:
  assumes "last_check_time st = None"
  shows "detect_cliproxy_restart now current_tokens current_requests st =
           (False, st\<lparr>last_total_tokens := current_tokens,
                       last_total_requests := current_requests,
                       last_check_time := Some now\<rparr>)"
  using assms by (simp add: detect_cliproxy_restart_def)

theorem first_observation_no_restart_witness:
  "last_check_time initial_cliproxy_state = None
   \<and> detect_cliproxy_restart 3 0 99 initial_cliproxy_state =
       (False, \<lparr>last_total_tokens = 0, last_total_requests = 99,
                last_check_time = Some 3, restart_count = 0\<rparr>)"
proof -
  have h: "last_check_time initial_cliproxy_state = None"
    by (simp add: initial_cliproxy_state_def)
  from first_observation_no_restart [OF h, of 3 0 99] h show ?thesis
    by (simp add: initial_cliproxy_state_def)
qed

text \<open>
  C2. After every call the stored baseline is the pair of totals of that call, on each
  of the three branches; so along any run of observations the baselines after the calls
  are the input pairs, in order.
\<close>

theorem baseline_is_last_input:
  "baseline (snd (detect_cliproxy_restart now current_tokens current_requests st)) =
     (current_tokens, current_requests)
   \<and> map baseline (observe_states st xs) = map snd xs"
proof
  show step: "baseline (snd (detect_cliproxy_restart now current_tokens current_requests st)) =
     (current_tokens, current_requests)" for now current_tokens current_requests st
    by (simp add: detect_cliproxy_restart_def baseline_def Let_def)
  show "map baseline (observe_states st xs) = map snd xs"
  proof (induction xs arbitrary: st)
    case Nil
    show ?case by simp
  next
    case (Cons x xs)
    obtain now t r where x: "x = (now, t, r)" by (cases x) auto
    show ?case using Cons.IH step [of now t r st] by (simp add: x Let_def)
  qed
qed

text \<open>
  C4. A call adds exactly 1 to \<open>restart_count\<close> when it reports a restart and leaves it
  as it is otherwise; so after a run of observations the counter has grown by the number
  of calls that reported a restart, one at a time.
\<close>

theorem restart_count_counts_restarts:
  "restart_count (snd (detect_cliproxy_restart now current_tokens current_requests st)) =
     restart_count st
       + (if fst (detect_cliproxy_restart now current_tokens current_requests st) then 1 else 0)
   \<and> restart_count (observe_all st xs) =
       restart_count st + int (length (filter id (observe_results st xs)))"
proof
  show step: "restart_count (snd (detect_cliproxy_restart now current_tokens current_requests st)) =
     restart_count st
       + (if fst (detect_cliproxy_restart now current_tokens current_requests st) then 1 else 0)"
    for now current_tokens current_requests st
    by (simp add: detect_cliproxy_restart_def Let_def)
  show "restart_count (observe_all st xs) =
       restart_count st + int (length (filter id (observe_results st xs)))"
  proof (induction xs arbitrary: st)
    case Nil
    show ?case by simp
  next
    case (Cons x xs)
    obtain now t r where x: "x = (now, t, r)" by (cases x) auto
    obtain b st' where d: "detect_cliproxy_restart now t r st = (b, st')"
      by (cases "detect_cliproxy_restart now t r st") auto
    from step [of now t r st] d have "restart_count st' = restart_count st + (if b then 1 else 0)"
      by simp
    with Cons.IH [of st'] show ?case by (simp add: x d)
  qed
qed

text \<open>
  C5. When the stored baseline already is (X, Y), a call with the totals (X, Y) reports
  no restart; hence the second of two consecutive calls with the same totals never
  reports one, whatever the state before the first call was.
\<close>

theorem unchanged_input_no_restart:
  "(baseline st = (x, y) \<longrightarrow> \<not> fst (detect_cliproxy_restart now x y st))
   \<and> \<not> fst (detect_cliproxy_restart now' x y (snd (detect_cliproxy_restart now x y st)))"
  by (simp add: detect_cliproxy_restart_def baseline_def Let_def)

theorem unchanged_input_no_restart_witness:
  "(let st = \<lparr>last_total_tokens = 100, last_total_requests = 50,
               last_check_time = Some 7, restart_count = 2\<rparr>
    in baseline st = (100, 50)
       \<and> \<not> fst (detect_cliproxy_restart 8 100 50 st)
       \<and> \<not> fst (detect_cliproxy_restart 9 100 50 (snd (detect_cliproxy_restart 8 100 50 st))))"
proof -
  have h: "baseline \<lparr>last_total_tokens = 100, last_total_requests = 50,
               last_check_time = Some 7, restart_count = 2\<rparr> = (100, 50)"
    by (simp add: baseline_def)
  from unchanged_input_no_restart
         [of "\<lparr>last_total_tokens = 100, last_total_requests = 50,
               last_check_time = Some 7, restart_count = 2\<rparr>" 100 50 8 9] h
  show ?thesis by (simp add: Let_def)
qed

text \<open>
  C9. \<open>last_check_time\<close> is \<open>None\<close> exactly as long as no observation has been made:
  the state is created with \<open>None\<close> and zero counters, every call sets it to the clock
  reading of that call, and so after a run of observations from the initial state it is
  \<open>None\<close> only for the empty run.
\<close>

theorem last_check_time_none_iff_unobserved:
  "initial_cliproxy_state =
     \<lparr>last_total_tokens = 0, last_total_requests = 0, last_check_time = None,
      restart_count = 0\<rparr>
   \<and> last_check_time (snd (detect_cliproxy_restart now current_tokens current_requests st)) =
       Some now
   \<and> (last_check_time (observe_all initial_cliproxy_state xs) = None \<longleftrightarrow> xs = [])"
proof (intro conjI)
  show "initial_cliproxy_state =
     \<lparr>last_total_tokens = 0, last_total_requests = 0, last_check_time = None,
      restart_count = 0\<rparr>"
    by (simp add: initial_cliproxy_state_def)
  show step: "last_check_time (snd (detect_cliproxy_restart now current_tokens current_requests st)) =
       Some now" for now current_tokens current_requests st
    by (simp add: detect_cliproxy_restart_def Let_def)
  have keep: "last_check_time s \<noteq> None \<Longrightarrow> last_check_time (observe_all s ys) \<noteq> None"
    for s ys
  proof (induction ys arbitrary: s)
    case Nil
    then show ?case by simp
  next
    case (Cons y ys)
    obtain now t r where y: "y = (now, t, r)" by (cases y) auto
    have "last_check_time (snd (detect_cliproxy_restart now t r s)) \<noteq> None"
      using step [of now t r s] by simp
    from Cons.IH [OF this] show ?case by (simp add: y)
  qed
  show "last_check_time (observe_all initial_cliproxy_state xs) = None \<longleftrightarrow> xs = []"
  proof (cases xs)
    case Nil
    then show ?thesis by (simp add: initial_cliproxy_state_def)
  next
    case (Cons y ys)
    obtain now t r where y: "y = (now, t, r)" by (cases y) auto
    have "last_check_time (snd (detect_cliproxy_restart now t r initial_cliproxy_state)) \<noteq> None"
      using step [of now t r initial_cliproxy_state] by simp
    from keep [OF this, of ys] show ?thesis by (simp add: Cons y)
  qed
qed

section \<open>Properties of the recovery\<close>

text \<open>
  C6. When there is no snapshot file, \<open>import_cliproxy_snapshot\<close> returns \<open>False\<close> and
  leaves the world as it was: no call is sent to the upstream, and \<open>_cliproxy_state\<close>
  is untouched.
\<close>

theorem missing_snapshot_no_effect:
  assumes "snapshot w = NoFile"
  shows "import_cliproxy_snapshot w = (False, w)"
  using assms by (simp add: import_cliproxy_snapshot_def)

theorem missing_snapshot_no_effect_witness:
  "snapshot (example_world NoFile [import_reply]) = NoFile
   \<and> import_cliproxy_snapshot (example_world NoFile [import_reply]) =
       (False, example_world NoFile [import_reply])"
proof -
  have h: "snapshot (example_world NoFile [import_reply]) = NoFile"
    by (simp add: example_world_def)
  from missing_snapshot_no_effect [OF h] h show ?thesis by simp
qed

text \<open>
  C7, as stated, fails: the function returns a boolean, and it returns the same \<open>False\<close>
  for a missing snapshot as for an import the upstream refuses with status 500 (in the
  second world the import call has been sent, in the first none has).
\<close>

theorem import_outcomes_counterexample:
  "fst (import_cliproxy_snapshot (example_world NoFile [])) =
     fst (import_cliproxy_snapshot
            (example_world (JsonFile example_snapshot) [Response 500 ''rejected'' (Inl [])]))
   \<and> snapshot (example_world NoFile []) = NoFile
   \<and> sent (snd (import_cliproxy_snapshot (example_world NoFile []))) = []
   \<and> sent (snd (import_cliproxy_snapshot
            (example_world (JsonFile example_snapshot) [Response 500 ''rejected'' (Inl [])]))) =
       [(''POST'', ''/v0/management/usage/import'', example_snapshot)]"
  by (simp add: run_cycle)

text \<open>
  C7, amended. The function returns one of two values. It returns \<open>True\<close> exactly when
  the snapshot file holds JSON whose totals can be read and printed, the upstream
  answers the import call with status 200 and a JSON body, and the counts of that body
  can be read and printed. In every other case (no snapshot file, an unreadable one, a
  refused or failed import call, an exception) it returns \<open>False\<close>.
\<close>

theorem import_true_iff_restored:
  "fst (import_cliproxy_snapshot w) \<longleftrightarrow>
     (\<exists>snap body_text data rest.
        snapshot w = JsonFile snap \<and> snapshot_info snap \<noteq> None
        \<and> upstream w = Response 200 body_text (Inr data) # rest
        \<and> import_report data \<noteq> None)"
  (is "?lhs \<longleftrightarrow> ?rhs")
proof
  assume l: ?lhs
  then obtain snap where f: "snapshot w = JsonFile snap"
    by (cases "snapshot w") (simp_all add: import_cliproxy_snapshot_def)
  from l f have i: "snapshot_info snap \<noteq> None"
    by (cases "snapshot_info snap") (simp_all add: import_cliproxy_snapshot_def)
  define a where "a = fst (http_request (''POST'', ''/v0/management/usage/import'', snap) w)"
  obtain data err where r: "api_result a = (data, err)" by (metis prod.exhaust)
  from l f i r have d: "import_report data \<noteq> None"
    by (auto simp: import_cliproxy_snapshot_def call_post a_def split: if_splits option.splits)
  from d have "data \<noteq> JNull" using import_report_JNull by auto
  from api_result_ok [OF r this] obtain body_text where
    a: "a = Response 200 body_text (Inr data)" by blast
  then obtain rest where "upstream w = Response 200 body_text (Inr data) # rest"
    unfolding a_def http_request_fst by (cases "upstream w") auto
  with f i d show ?rhs by blast
next
  assume ?rhs
  then obtain snap body_text data rest where
    "snapshot w = JsonFile snap" "snapshot_info snap \<noteq> None"
    "upstream w = Response 200 body_text (Inr data) # rest" "import_report data \<noteq> None"
    by blast
  then show ?lhs
    by (auto simp: import_cliproxy_snapshot_def call_post http_request_def)
qed

theorem import_true_iff_restored_witness:
  "fst (import_cliproxy_snapshot (example_world (JsonFile example_snapshot) [import_reply]))
   \<and> \<not> fst (import_cliproxy_snapshot (example_world NoFile [import_reply]))
   \<and> \<not> fst (import_cliproxy_snapshot
              (example_world (JsonFile example_snapshot) [Response 500 ''rejected'' (Inl [])]))"
proof -
  have ok: "\<exists>snap body_text data rest.
        snapshot (example_world (JsonFile example_snapshot) [import_reply]) = JsonFile snap
        \<and> snapshot_info snap \<noteq> None
        \<and> upstream (example_world (JsonFile example_snapshot) [import_reply]) =
            Response 200 body_text (Inr data) # rest
        \<and> import_report data \<noteq> None"
    by (simp add: example_world_def example_snapshot_def import_reply_def snapshot_info_def
          import_report_def)
  have missing: "\<not> (\<exists>snap body_text data rest.
        snapshot (example_world NoFile [import_reply]) = JsonFile snap
        \<and> snapshot_info snap \<noteq> None
        \<and> upstream (example_world NoFile [import_reply]) =
            Response 200 body_text (Inr data) # rest
        \<and> import_report data \<noteq> None)"
    by (simp add: example_world_def)
  have rejected: "\<not> (\<exists>snap body_text data rest.
        snapshot (example_world (JsonFile example_snapshot) [Response 500 ''rejected'' (Inl [])])
          = JsonFile snap
        \<and> snapshot_info snap \<noteq> None
        \<and> upstream (example_world (JsonFile example_snapshot)
                       [Response 500 ''rejected'' (Inl [])]) =
            Response 200 body_text (Inr data) # rest
        \<and> import_report data \<noteq> None)"
    by (simp add: example_world_def)
  from ok missing rejected
    import_true_iff_restored [of "example_world (JsonFile example_snapshot) [import_reply]"]
    import_true_iff_restored [of "example_world NoFile [import_reply]"]
    import_true_iff_restored
      [of "example_world (JsonFile example_snapshot) [Response 500 ''rejected'' (Inl [])]"]
  show ?thesis by blast
qed

text \<open>
  C8. When the fetch of the usage totals fails, that is, \<open>call_management_api\<close> returns
  an error (the HTTP call raised, the status was not 200, or the body was not JSON), or
  its reply is not an object from which the totals can be taken, the cycle ends there:
  \<open>_cliproxy_state\<close> (both totals, the check time, the restart count) is as before, and
  so are the other dictionary, the snapshot file and the emitted events; the only
  call sent is the fetch itself, so no import is attempted. The result is the same for
  every clock reading \<open>now\<close>, while \<open>detect_cliproxy_restart\<close> stores the clock reading
  whenever it runs.
\<close>

theorem failed_fetch_skips_cycle:
  assumes "call_management_api ''GET'' ''/v0/management/usage'' JNull w = ((data, err), w1)"
      and "err \<noteq> None \<or> usage_totals data = None"
  shows "broadcast_usage_update now today w = Some w1
         \<and> cliproxy w1 = cliproxy w \<and> last_usage w1 = last_usage w
         \<and> snapshot w1 = snapshot w \<and> emitted w1 = emitted w
         \<and> sent w1 = sent w @ [(''GET'', ''/v0/management/usage'', JNull)]"
proof -
  from assms(1) have
    r: "api_result (fst (http_request (''GET'', ''/v0/management/usage'', JNull) w)) = (data, err)"
    and w1: "w1 = snd (http_request (''GET'', ''/v0/management/usage'', JNull) w)"
    by (simp_all add: call_get)
  have "usage_totals data = None"
    using assms(2) api_result_cases [OF r] usage_totals_JNull by auto
  then have "broadcast_usage_update now today w = Some w1"
    using assms(1) by (simp add: broadcast_usage_update_def)
  moreover have "sent w1 = sent w @ [(''GET'', ''/v0/management/usage'', JNull)]"
    unfolding w1 by (simp add: http_request_def split: list.splits)
  ultimately show ?thesis unfolding w1 by (simp add: http_request_keeps)
qed

theorem failed_fetch_skips_cycle_witness:
  "call_management_api ''GET'' ''/v0/management/usage'' JNull
       (example_world NoFile [Raises ''connection refused'']) =
     ((JNull, Some (Raised ''connection refused'')),
      (example_world NoFile [])\<lparr>sent := [(''GET'', ''/v0/management/usage'', JNull)]\<rparr>)
   \<and> broadcast_usage_update 8 ''2025-01-02''
       (example_world NoFile [Raises ''connection refused'']) =
     Some ((example_world NoFile [])\<lparr>sent := [(''GET'', ''/v0/management/usage'', JNull)]\<rparr>)
   \<and> cliproxy ((example_world NoFile [])\<lparr>sent := [(''GET'', ''/v0/management/usage'', JNull)]\<rparr>) =
       cliproxy (example_world NoFile [Raises ''connection refused''])"
proof -
  have h: "call_management_api ''GET'' ''/v0/management/usage'' JNull
       (example_world NoFile [Raises ''connection refused'']) =
     ((JNull, Some (Raised ''connection refused'')),
      (example_world NoFile [])\<lparr>sent := [(''GET'', ''/v0/management/usage'', JNull)]\<rparr>)"
    by (simp add: example_world_def call_management_api_def http_request_def)
  have e: "Some (Raised ''connection refused'') \<noteq> None \<or> usage_totals JNull = None"
    by simp
  from failed_fetch_skips_cycle [OF h e, of 8 "''2025-01-02''"] h show ?thesis
    by blast
qed

text \<open>
  C10. The recovery never writes \<open>_cliproxy_state\<close>. \<open>import_cliproxy_snapshot\<close> leaves it
  as it is on every branch. In a cycle whose first usage reply carries the integer
  totals (t1, r1), the state at the end of the cycle is the one
  \<open>detect_cliproxy_restart\<close> left on (t1, r1), whatever the import and the second read of
  the totals did: the baseline is (t1, r1), not the totals read after the import. An
  observation of totals that are not below (t1, r1), such as the restored ones, then
  reports no restart and leaves the restart count as it is.
\<close>

theorem recovery_keeps_detect_baseline:
  assumes "call_management_api ''GET'' ''/v0/management/usage'' JNull w = ((data, err), w1)"
      and "\<not> err_truthy err"
      and "usage_totals data = Some (usage, JInt t1, JInt r1)"
      and "broadcast_usage_update now today w = Some w'"
  shows "cliproxy (snd (import_cliproxy_snapshot w0)) = cliproxy w0
         \<and> cliproxy w' = snd (detect_cliproxy_restart now t1 r1 (cliproxy w))
         \<and> baseline (cliproxy w') = (t1, r1)
         \<and> (t1 \<le> t2 \<and> r1 \<le> r2 \<longrightarrow>
              \<not> fst (detect_cliproxy_restart now' t2 r2 (cliproxy w'))
              \<and> restart_count (snd (detect_cliproxy_restart now' t2 r2 (cliproxy w'))) =
                  restart_count (cliproxy w'))"
proof -
  have st: "cliproxy w' = snd (detect_cliproxy_restart now t1 r1 (cliproxy w))"
    by (rule broadcast_cliproxy [OF assms])
  have bl: "baseline (cliproxy w') = (t1, r1)"
    unfolding st by (simp add: detect_cliproxy_restart_def baseline_def Let_def)
  have nx: "\<not> fst (detect_cliproxy_restart now' t2 r2 (cliproxy w'))
            \<and> restart_count (snd (detect_cliproxy_restart now' t2 r2 (cliproxy w'))) =
                restart_count (cliproxy w')"
    if "t1 \<le> t2 \<and> r1 \<le> r2"
    using that bl by (auto simp: detect_cliproxy_restart_def baseline_def Let_def)
  from st bl nx import_keeps_cliproxy [of w0] show ?thesis by blast
qed

theorem recovery_keeps_detect_baseline_witness:
  "(case broadcast_usage_update 8 ''2025-01-02''
           (example_world (JsonFile example_snapshot)
              [usage_reply 10 5, import_reply, usage_reply 120 60]) of
      None \<Rightarrow> False
    | Some w' \<Rightarrow>
        sent w' = [(''GET'', ''/v0/management/usage'', JNull),
                   (''POST'', ''/v0/management/usage/import'', example_snapshot),
                   (''GET'', ''/v0/management/usage'', JNull)]
        \<and> last_usage w' = (120, 60)
        \<and> baseline (cliproxy w') = (10, 5)
        \<and> \<not> fst (detect_cliproxy_restart 9 120 60 (cliproxy w')))"
proof -
  let ?w = "example_world (JsonFile example_snapshot)
              [usage_reply 10 5, import_reply, usage_reply 120 60]"
  let ?usage = "JDict [(''total_tokens'', JInt 10), (''total_requests'', JInt 5)]"
  let ?w' = "\<lparr>cliproxy = \<lparr>last_total_tokens = 10, last_total_requests = 5,
                  last_check_time = Some 8, restart_count = 1\<rparr>,
      last_usage = (120, 60), snapshot = JsonFile example_snapshot, upstream = [],
      sent = [(''GET'', ''/v0/management/usage'', JNull),
              (''POST'', ''/v0/management/usage/import'', example_snapshot),
              (''GET'', ''/v0/management/usage'', JNull)],
      emitted = [\<lparr>total_tokens = 120, total_requests = 60, today_tokens = JInt 0,
                  today_requests = JInt 0, success_count = JInt 0, timestamp = 8\<rparr>]\<rparr>"
  have h1: "call_management_api ''GET'' ''/v0/management/usage'' JNull ?w =
              ((JDict [(''usage'', ?usage)], None),
               (example_world (JsonFile example_snapshot) [import_reply, usage_reply 120 60])
                 \<lparr>sent := [(''GET'', ''/v0/management/usage'', JNull)]\<rparr>)"
    by (simp add: example_world_def call_management_api_def http_request_def usage_reply_def)
  have h2: "\<not> err_truthy None" by simp
  have h3: "usage_totals (JDict [(''usage'', ?usage)]) = Some (?usage, JInt 10, JInt 5)"
    by (simp add: usage_totals_def)
  have h4: "broadcast_usage_update 8 ''2025-01-02'' ?w = Some ?w'"
    by (simp add: run_cycle)
  have le: "(10::int) \<le> 120 \<and> (5::int) \<le> 60" by simp
  have "baseline (cliproxy ?w') = (10, 5)
        \<and> \<not> fst (detect_cliproxy_restart 9 120 60 (cliproxy ?w'))"
    using recovery_keeps_detect_baseline [OF h1 h2 h3 h4, of ?w 120 60 9] le by blast
  then show ?thesis unfolding h4 by simp
qed

end
